theory Spec2Isabelle
  imports Complex_Main
begin

section \<open>Numbers, arrays and the data model\<close>

text \<open>
  The TypeScript sources compute on IEEE doubles. The embedding reads every \<open>number\<close>
  that holds a price, a time, a capital or an indicator value as an exact \<^typ>\<open>real\<close>,
  and every array index, array length and period as a \<^typ>\<open>nat\<close>; rounding is not
  modelled. The only non-finite value that the source writes itself is the \<open>Infinity\<close> of
  the profit factor, which has a constructor of its own. The source guards its divisions
  by a smoothed true range, by a sum of directional indicators and by the counts and
  deviations of the metrics, and the embedding keeps the guards. Three divisors are not
  guarded: the period, the entry price of a position and the initial capital. Where one
  of them is 0 the source yields \<open>Infinity\<close> or \<open>NaN\<close>, which no real number stands
  for; the statements below are about exact arithmetic and read those inputs as outside
  their scope.

  Names follow the source. Where two objects of the source share a field name, the
  fields of the later record are renamed: \<open>signalTime\<close> is the \<open>timestamp\<close> of a
  \<open>ScreeningResult\<close>, the \<open>pos_\<close> fields are those of the \<open>position\<close> object, and the
  \<open>run_\<close> fields are the local variables of \<open>run\<close> that the result record also names.
\<close>

datatype number = Finite real | Infinity

datatype error = TypeError

record Candle =
  high :: real
  low :: real
  close :: real
  "open" :: real
  timestamp :: real

record ADXResult =
  adx :: real
  plusDI :: real
  minusDI :: real

text \<open>\<open>xs.slice(a, b)\<close> for non-negative \<open>a\<close> and \<open>b\<close>.\<close>

definition slice :: "'a list \<Rightarrow> nat \<Rightarrow> nat \<Rightarrow> 'a list" where
  "slice xs a b = take (b - a) (drop a xs)"

text \<open>\<open>xs.reduce((sum, val) => sum + val, 0)\<close>.\<close>

definition reduce_sum :: "real list \<Rightarrow> real" where
  "reduce_sum xs = foldl (\<lambda>sum val. sum + val) 0 xs"

section \<open>indicators/adx.ts\<close>

definition calculateTrueRange :: "Candle list \<Rightarrow> nat \<Rightarrow> real" where
  "calculateTrueRange candles index =
     (if index = 0 then high (candles ! 0) - low (candles ! 0)
      else
        let current = candles ! index;
            previous = candles ! (index - 1);
            tr1 = high current - low current;
            tr2 = \<bar>high current - close previous\<bar>;
            tr3 = \<bar>low current - close previous\<bar>
        in max (max tr1 tr2) tr3)"

text \<open>The arrays filled by the first loop of \<open>calculateADX\<close>.\<close>

record Series =
  trueRanges :: "real list"
  plusDM :: "real list"
  minusDM :: "real list"
  results :: "ADXResult option list"

definition series_step :: "Candle list \<Rightarrow> Series \<Rightarrow> nat \<Rightarrow> Series" where
  "series_step candles s i =
     (let tr = calculateTrueRange candles i in
      if i = 0 then
        \<lparr>trueRanges = trueRanges s @ [tr], plusDM = plusDM s @ [0],
         minusDM = minusDM s @ [0], results = results s @ [None]\<rparr>
      else
        let highDiff = high (candles ! i) - high (candles ! (i - 1));
            lowDiff = low (candles ! (i - 1)) - low (candles ! i);
            plusDMValue = (if highDiff > lowDiff \<and> highDiff > 0 then highDiff else 0);
            minusDMValue = (if lowDiff > highDiff \<and> lowDiff > 0 then lowDiff else 0)
        in \<lparr>trueRanges = trueRanges s @ [tr], plusDM = plusDM s @ [plusDMValue],
            minusDM = minusDM s @ [minusDMValue], results = results s @ [None]\<rparr>)"

text \<open>The first loop, run for the indices below \<open>n\<close>.\<close>

definition series_loop :: "Candle list \<Rightarrow> nat \<Rightarrow> Series" where
  "series_loop candles n =
     foldl (series_step candles)
       \<lparr>trueRanges = [], plusDM = [], minusDM = [], results = []\<rparr>
       [0..<n]"

definition series :: "Candle list \<Rightarrow> Series" where
  "series candles = series_loop candles (length candles)"

text \<open>
  The variables of the second loop. \<open>smoothedTR\<close>, \<open>smoothedPlusDM\<close> and
  \<open>smoothedMinusDM\<close> are assigned together and tested through \<open>smoothedTR\<close> alone, so
  they are kept as one optional triple.
\<close>

record ADXState =
  smoothed :: "(real \<times> real \<times> real) option"
  smoothedDX :: "real option"
  dxValues :: "real list"
  adxResults :: "ADXResult option list"

definition adx_step :: "nat \<Rightarrow> Series \<Rightarrow> ADXState \<Rightarrow> nat \<Rightarrow> ADXState" where
  "adx_step period s st i =
     (let (smoothedTR, smoothedPlusDM, smoothedMinusDM) =
            (case smoothed st of
               None \<Rightarrow>
                 (reduce_sum (slice (trueRanges s) (i - period + 1) (i + 1)) / real period,
                  reduce_sum (slice (plusDM s) (i - period + 1) (i + 1)) / real period,
                  reduce_sum (slice (minusDM s) (i - period + 1) (i + 1)) / real period)
             | Some (sTR, sPlusDM, sMinusDM) \<Rightarrow>
                 ((sTR * (real period - 1) + trueRanges s ! i) / real period,
                  (sPlusDM * (real period - 1) + plusDM s ! i) / real period,
                  (sMinusDM * (real period - 1) + minusDM s ! i) / real period));
          pDI = (if smoothedTR > 0 then smoothedPlusDM / smoothedTR * 100 else 0);
          mDI = (if smoothedTR > 0 then smoothedMinusDM / smoothedTR * 100 else 0);
          diSum = pDI + mDI;
          dx = (if diSum > 0 then \<bar>pDI - mDI\<bar> / diSum * 100 else 0);
          dxs = dxValues st @ [dx];
          (newSmoothedDX, adxNow) =
            (if length dxs \<ge> period then
               let v = (case smoothedDX st of
                          None \<Rightarrow>
                            reduce_sum (slice dxs (length dxs - period) (length dxs)) / real period
                        | Some sDX \<Rightarrow> (sDX * (real period - 1) + dx) / real period)
               in (Some v, v)
             else (smoothedDX st, 0))
      in \<lparr>smoothed = Some (smoothedTR, smoothedPlusDM, smoothedMinusDM),
          smoothedDX = newSmoothedDX,
          dxValues = dxs,
          adxResults = (adxResults st)[i := Some \<lparr>adx = adxNow, plusDI = pDI, minusDI = mDI\<rparr>]\<rparr>)"

text \<open>The second loop, from index \<open>period\<close> and run for the indices below \<open>n\<close>.\<close>

definition adx_loop :: "nat \<Rightarrow> Series \<Rightarrow> nat \<Rightarrow> ADXState" where
  "adx_loop period s n =
     foldl (adx_step period s)
       \<lparr>smoothed = None, smoothedDX = None, dxValues = [], adxResults = results s\<rparr>
       [period..<n]"

definition calculateADX :: "Candle list \<Rightarrow> nat \<Rightarrow> ADXResult option list" where
  "calculateADX candles period =
     (if length candles < period * 2 then replicate (length candles) None
      else adxResults (adx_loop period (series candles) (length candles)))"

definition getADXValue :: "Candle list \<Rightarrow> nat \<Rightarrow> nat \<Rightarrow> real option" where
  "getADXValue candles index period =
     (let rs = calculateADX (slice candles 0 (index + 1)) period;
          result = (if rs = [] then None else rs ! (length rs - 1))
      in map_option adx result)"

section \<open>strategies/adx-screening.ts\<close>

record ADXScreeningParams =
  pADXPeriodo :: nat
  pADXMaxLateral :: real

record ScreeningResult =
  screening :: bool
  adxValue :: real
  isLateral :: bool
  signalTime :: real

text \<open>
  \<open>screen\<close> reads \<open>candles[index].timestamp\<close> when it builds its result; for an index
  past the end of the array that read raises a \<open>TypeError\<close>.
\<close>

definition screen :: "ADXScreeningParams \<Rightarrow> Candle list \<Rightarrow> nat \<Rightarrow> error + ScreeningResult option" where
  "screen params candles index =
     (if index < pADXPeriodo params * 2 then Inr None
      else
        let rs = calculateADX (slice candles 0 (index + 1)) (pADXPeriodo params);
            adxResult = (if rs = [] then None else rs ! (length rs - 1))
        in case adxResult of
             None \<Rightarrow> Inr None
           | Some r \<Rightarrow>
               if adx r = 0 then Inr None
               else if index < length candles then
                 Inr (Some \<lparr>screening = (adx r \<le> pADXMaxLateral params),
                            adxValue = adx r,
                            isLateral = (adx r \<le> pADXMaxLateral params),
                            signalTime = timestamp (candles ! index)\<rparr>)
               else Inl TypeError)"

text \<open>
  \<open>screenAll\<close> calls \<open>screen\<close> for the indices of the array only, where it cannot raise
  (lemma \<open>screen_in_range\<close> below), so the list it returns needs no error case.
\<close>

definition screenAll :: "ADXScreeningParams \<Rightarrow> Candle list \<Rightarrow> ScreeningResult option list" where
  "screenAll params candles =
     map (\<lambda>i. case screen params candles i of Inr r \<Rightarrow> r | Inl e \<Rightarrow> None) [0..<length candles]"

section \<open>backtesting/backtest-engine.ts\<close>

datatype Side = Long | Short

datatype TradingMode = ModeLong | ModeShort | ModeBoth

record Trade =
  entryIndex :: nat
  exitIndex :: nat
  entryPrice :: real
  exitPrice :: real
  entryTime :: real
  exitTime :: real
  pnl :: real
  pnlPercent :: real
  type :: Side

record BacktestConfig =
  initialCapital :: real
  positionSize :: real
  commission :: real
  slippage :: real
  maxHoldingPeriod :: "real option"
  tradingMode :: TradingMode

record BacktestResult =
  trades :: "Trade list"
  totalTrades :: nat
  winningTrades :: nat
  losingTrades :: nat
  winRate :: real
  totalPnL :: real
  totalPnLPercent :: real
  averagePnL :: real
  averageWin :: real
  averageLoss :: real
  largestWin :: real
  largestLoss :: real
  profitFactor :: number
  finalCapital :: real
  maxDrawdown :: real
  maxDrawdownPercent :: real
  sharpeRatio :: real
  screeningSignals :: nat
  screeningSuccessRate :: real

text \<open>The \<open>position\<close> variable of \<open>run\<close>, when it is not \<open>null\<close>.\<close>

record Position =
  pos_type :: Side
  pos_entryIndex :: nat
  pos_entryPrice :: real

text \<open>The variables that \<open>run\<close> updates in its loop.\<close>

record RunState =
  capital :: real
  peakCapital :: real
  run_maxDrawdown :: real
  position :: "Position option"
  run_screeningSignals :: nat
  run_trades :: "Trade list"

text \<open>
  The trade record that both closing blocks of \<open>run\<close> build: from the capital before the
  close, the open position, the index of the exit candle and that candle.
\<close>

definition closeTrade :: "BacktestConfig \<Rightarrow> Candle list \<Rightarrow> real \<Rightarrow> Position \<Rightarrow> nat \<Rightarrow> Candle \<Rightarrow> Trade" where
  "closeTrade cfg candles cap p exitIdx exitCandle =
     (let exitPrice = (if pos_type p = Long then close exitCandle * (1 - slippage cfg)
                       else close exitCandle * (1 + slippage cfg));
          rawPercent = (if pos_type p = Long then (exitPrice - pos_entryPrice p) / pos_entryPrice p
                        else (pos_entryPrice p - exitPrice) / pos_entryPrice p);
          pnlPercent = rawPercent - commission cfg * 2;
          positionValue = cap * positionSize cfg;
          pnl = positionValue * pnlPercent
      in \<lparr>entryIndex = pos_entryIndex p, exitIndex = exitIdx,
          entryPrice = pos_entryPrice p, exitPrice = exitPrice,
          entryTime = timestamp (candles ! pos_entryIndex p), exitTime = timestamp exitCandle,
          pnl = pnl, pnlPercent = pnlPercent, type = pos_type p\<rparr>)"

text \<open>
  The truth value of
  \<open>this.config.maxHoldingPeriod && i - position.entryIndex >= this.config.maxHoldingPeriod\<close>:
  an unset period and the period \<open>0\<close> are both falsy.
\<close>

definition holdingElapsed :: "BacktestConfig \<Rightarrow> nat \<Rightarrow> Position \<Rightarrow> bool" where
  "holdingElapsed cfg i p =
     (case maxHoldingPeriod cfg of
        None \<Rightarrow> False
      | Some h \<Rightarrow> h \<noteq> 0 \<and> real i - real (pos_entryIndex p) \<ge> h)"

text \<open>One iteration of the loop of \<open>run\<close>, at candle \<open>i\<close>.\<close>

definition run_step :: "BacktestConfig \<Rightarrow> Candle list \<Rightarrow> ScreeningResult option list \<Rightarrow> RunState \<Rightarrow> nat \<Rightarrow> RunState" where
  "run_step cfg candles screeningResults st i =
     (case screeningResults ! i of
        None \<Rightarrow> st
      | Some sr \<Rightarrow>
          let st1 = (if screening sr then st\<lparr>run_screeningSignals := run_screeningSignals st + 1\<rparr> else st)
          in if position st1 = None \<and> screening sr then
               (if tradingMode cfg = ModeLong \<or> tradingMode cfg = ModeBoth then
                  st1\<lparr>position := Some \<lparr>pos_type = Long, pos_entryIndex = i,
                                         pos_entryPrice = close (candles ! i) * (1 + slippage cfg)\<rparr>\<rparr>
                else if tradingMode cfg = ModeShort then
                  st1\<lparr>position := Some \<lparr>pos_type = Short, pos_entryIndex = i,
                                         pos_entryPrice = close (candles ! i) * (1 - slippage cfg)\<rparr>\<rparr>
                else st1)
             else
               (case position st1 of
                  None \<Rightarrow> st1
                | Some p \<Rightarrow>
                    if \<not> screening sr \<or> holdingElapsed cfg i p then
                      let t = closeTrade cfg candles (capital st1) p i (candles ! i);
                          capital' = capital st1 + pnl t;
                          peak' = (if capital' > peakCapital st1 then capital' else peakCapital st1);
                          drawdown = peak' - capital';
                          maxDD' = (if drawdown > run_maxDrawdown st1 then drawdown else run_maxDrawdown st1)
                      in st1\<lparr>capital := capital', peakCapital := peak', run_maxDrawdown := maxDD',
                              position := None, run_trades := run_trades st1 @ [t]\<rparr>
                    else st1))"

definition run_init :: "BacktestConfig \<Rightarrow> RunState" where
  "run_init cfg =
     \<lparr>capital = initialCapital cfg, peakCapital = initialCapital cfg, run_maxDrawdown = 0,
      position = None, run_screeningSignals = 0, run_trades = []\<rparr>"

definition run_loop :: "BacktestConfig \<Rightarrow> Candle list \<Rightarrow> ScreeningResult option list \<Rightarrow> nat \<Rightarrow> RunState" where
  "run_loop cfg candles screeningResults n =
     foldl (run_step cfg candles screeningResults) (run_init cfg) [0..<n]"

text \<open>The block after the loop: "Close any open position at the end".\<close>

definition forcedClose :: "BacktestConfig \<Rightarrow> Candle list \<Rightarrow> RunState \<Rightarrow> RunState" where
  "forcedClose cfg candles st =
     (case position st of
        None \<Rightarrow> st
      | Some p \<Rightarrow>
          if length candles > 0 then
            let lastCandle = candles ! (length candles - 1);
                t = closeTrade cfg candles (capital st) p (length candles - 1) lastCandle
            in st\<lparr>capital := capital st + pnl t, run_trades := run_trades st @ [t]\<rparr>
          else st)"

definition wins :: "Trade list \<Rightarrow> Trade list" where
  "wins ts = filter (\<lambda>t. pnl t > 0) ts"

definition losses :: "Trade list \<Rightarrow> Trade list" where
  "losses ts = filter (\<lambda>t. pnl t < 0) ts"

definition grossProfit :: "Trade list \<Rightarrow> real" where
  "grossProfit ts = reduce_sum (map pnl (wins ts))"

definition grossLoss :: "Trade list \<Rightarrow> real" where
  "grossLoss ts = \<bar>reduce_sum (map pnl (losses ts))\<bar>"

definition calculateMetrics :: "BacktestConfig \<Rightarrow> Trade list \<Rightarrow> real \<Rightarrow> real \<Rightarrow> nat \<Rightarrow> BacktestResult" where
  "calculateMetrics cfg ts finalCap maxDD signals =
     (let total = length ts;
          winning = length (filter (\<lambda>t. pnl t > 0) ts);
          losing = length (filter (\<lambda>t. pnl t < 0) ts);
          rate = (if total > 0 then real winning / real total else 0);
          totPnL = reduce_sum (map pnl ts);
          totPnLPercent = (finalCap - initialCapital cfg) / initialCapital cfg * 100;
          avgPnL = (if total > 0 then totPnL / real total else 0);
          avgWin = (if length (wins ts) > 0
                    then reduce_sum (map pnl (wins ts)) / real (length (wins ts)) else 0);
          avgLoss = (if length (losses ts) > 0
                     then reduce_sum (map pnl (losses ts)) / real (length (losses ts)) else 0);
          maxWin = (case map pnl (wins ts) of [] \<Rightarrow> 0 | x # xs \<Rightarrow> foldl max x xs);
          minLoss = (case map pnl (losses ts) of [] \<Rightarrow> 0 | x # xs \<Rightarrow> foldl min x xs);
          pf = (if grossLoss ts > 0 then Finite (grossProfit ts / grossLoss ts)
                else if grossProfit ts > 0 then Infinity else Finite 0);
          maxDDPercent = maxDD / initialCapital cfg * 100;
          returns = map pnlPercent ts;
          avgReturn = (if length returns > 0 then reduce_sum returns / real (length returns) else 0);
          stdDev = (if length returns > 1
                    then sqrt (reduce_sum (map (\<lambda>r. (r - avgReturn)\<^sup>2) returns)
                               / (real (length returns) - 1))
                    else 0);
          sharpe = (if stdDev > 0 then avgReturn / stdDev else 0);
          successRate = (if signals > 0 then real winning / real signals * 100 else 0)
      in \<lparr>trades = ts, totalTrades = total, winningTrades = winning, losingTrades = losing,
          winRate = rate * 100, totalPnL = totPnL, totalPnLPercent = totPnLPercent,
          averagePnL = avgPnL, averageWin = avgWin, averageLoss = avgLoss,
          largestWin = maxWin, largestLoss = minLoss, profitFactor = pf,
          finalCapital = finalCap, maxDrawdown = maxDD, maxDrawdownPercent = maxDDPercent,
          sharpeRatio = sharpe, screeningSignals = signals, screeningSuccessRate = successRate\<rparr>)"

text \<open>
  The body of \<open>run\<close> after \<open>screenAll\<close>, for any list of screening results as long as
  the candle list: \<open>simulate\<close> is the loop over the candles followed by the forced close,
  \<open>run_on\<close> hands its final variables to \<open>calculateMetrics\<close>.
\<close>

definition simulate :: "BacktestConfig \<Rightarrow> Candle list \<Rightarrow> ScreeningResult option list \<Rightarrow> RunState" where
  "simulate cfg candles screeningResults =
     forcedClose cfg candles (run_loop cfg candles screeningResults (length candles))"

definition run_on :: "BacktestConfig \<Rightarrow> Candle list \<Rightarrow> ScreeningResult option list \<Rightarrow> BacktestResult" where
  "run_on cfg candles screeningResults =
     (let st = simulate cfg candles screeningResults
      in calculateMetrics cfg (run_trades st) (capital st) (run_maxDrawdown st) (run_screeningSignals st))"

text \<open>\<open>BacktestEngine.run\<close>, for an engine built with strategy parameters \<open>params\<close> and configuration \<open>cfg\<close>.\<close>

definition run :: "BacktestConfig \<Rightarrow> ADXScreeningParams \<Rightarrow> Candle list \<Rightarrow> BacktestResult" where
  "run cfg params candles = run_on cfg candles (screenAll params candles)"

section \<open>Example inputs\<close>

text \<open>A candle from its timestamp and its open, high, low and close prices.\<close>

definition bar :: "real \<Rightarrow> real \<Rightarrow> real \<Rightarrow> real \<Rightarrow> real \<Rightarrow> Candle" where
  "bar t opn hi lo cl = \<lparr>high = hi, low = lo, close = cl, open = opn, timestamp = t\<rparr>"

text \<open>The configuration the constructor builds from an empty argument.\<close>

definition default_config :: BacktestConfig where
  "default_config =
     \<lparr>initialCapital = 10000, positionSize = 1 / 10, commission = 1 / 1000,
      slippage = 1 / 2000, maxHoldingPeriod = None, tradingMode = ModeLong\<rparr>"

definition capped_config :: BacktestConfig where
  "capped_config = default_config\<lparr>maxHoldingPeriod := Some 1\<rparr>"

definition both_config :: BacktestConfig where
  "both_config = capped_config\<lparr>tradingMode := ModeBoth\<rparr>"

definition short_config :: BacktestConfig where
  "short_config = default_config\<lparr>tradingMode := ModeShort\<rparr>"

text \<open>
  With period 1 every smoothed value is the current one, so the ADX of a candle is 100
  when exactly one directional movement is positive and 0 when both vanish; with the
  threshold 100 a candle with ADX 100 is lateral.
\<close>

definition period1_params :: ADXScreeningParams where
  "period1_params = \<lparr>pADXPeriodo = 1, pADXMaxLateral = 100\<rparr>"

definition period2_params :: ADXScreeningParams where
  "period2_params = \<lparr>pADXPeriodo = 2, pADXMaxLateral = 100\<rparr>"

text \<open>Three rising candles: the first signal, at index 2, is on the last candle.\<close>

definition candles_rising3 :: "Candle list" where
  "candles_rising3 = [bar 0 9 10 8 9, bar 1 9 11 9 10, bar 2 10 12 10 11]"

text \<open>A fourth candle with a higher high that closes below the entry price.\<close>

definition candles_losing :: "Candle list" where
  "candles_losing = candles_rising3 @ [bar 3 11 13 10 (21 / 2)]"

text \<open>A fourth candle with a higher high that closes above the entry price.\<close>

definition candles_winning :: "Candle list" where
  "candles_winning = candles_rising3 @ [bar 3 11 13 11 12]"

text \<open>
  Candle 3 repeats the high and the low of candle 2, so its ADX is 0 and it carries no
  screening signal; candle 4 rises again.
\<close>

definition candles_with_gap :: "Candle list" where
  "candles_with_gap = candles_rising3 @ [bar 3 11 12 10 11, bar 4 11 13 11 12]"

text \<open>Six rising candles: a signal on every candle from index 2 on.\<close>

definition candles_rising6 :: "Candle list" where
  "candles_rising6 =
     candles_rising3 @ [bar 3 11 13 11 12, bar 4 12 14 12 13, bar 5 13 15 13 14]"

section \<open>Invariants of the simulation loop\<close>

text \<open>
  Before candle \<open>i\<close> is processed: every closed trade lies strictly before candle \<open>i\<close> and
  exits after it was entered, each trade is entered after the exit of all earlier ones,
  and an open position was entered before candle \<open>i\<close> and after every exit.
\<close>

definition chronological :: "nat \<Rightarrow> RunState \<Rightarrow> bool" where
  "chronological i st =
     (sorted_wrt (\<lambda>a b. exitIndex a < entryIndex b) (run_trades st)
      \<and> (\<forall>t\<in>set (run_trades st). entryIndex t < exitIndex t \<and> exitIndex t < i)
      \<and> (case position st of
            None \<Rightarrow> True
          | Some p \<Rightarrow> pos_entryIndex p < i \<and> (\<forall>t\<in>set (run_trades st). exitIndex t < pos_entryIndex p)))"

text \<open>The side and the fill price that the entry block gives a position opened at \<open>idx\<close>.\<close>

definition entry_rule :: "BacktestConfig \<Rightarrow> Candle list \<Rightarrow> Side \<Rightarrow> nat \<Rightarrow> real \<Rightarrow> bool" where
  "entry_rule cfg candles sd idx price =
     (if tradingMode cfg = ModeShort
      then sd = Short \<and> price = close (candles ! idx) * (1 - slippage cfg)
      else sd = Long \<and> price = close (candles ! idx) * (1 + slippage cfg))"

definition entries_ok :: "BacktestConfig \<Rightarrow> Candle list \<Rightarrow> RunState \<Rightarrow> bool" where
  "entries_ok cfg candles st =
     ((\<forall>t\<in>set (run_trades st). entry_rule cfg candles (type t) (entryIndex t) (entryPrice t))
      \<and> (case position st of
            None \<Rightarrow> True
          | Some p \<Rightarrow> entry_rule cfg candles (pos_type p) (pos_entryIndex p) (pos_entryPrice p)))"

section \<open>Basic facts about the embedding\<close>

lemma reduce_sum_acc: "foldl (\<lambda>sum val. sum + val) a xs = a + sum_list xs" for a :: real
  by (induction xs arbitrary: a) simp_all

lemma reduce_sum_eq: "reduce_sum xs = sum_list xs"
  by (simp add: reduce_sum_def reduce_sum_acc)

lemma run_loop_0: "run_loop cfg cs srs 0 = run_init cfg"
  by (simp add: run_loop_def)

lemma run_loop_Suc: "run_loop cfg cs srs (Suc n) = run_step cfg cs srs (run_loop cfg cs srs n) n"
  by (simp add: run_loop_def)

text \<open>The fields of the result of \<open>run\<close> that are copied from the final variables.\<close>

lemma result_fields:
  "trades (run cfg params cs) = run_trades (simulate cfg cs (screenAll params cs))"
  "finalCapital (run cfg params cs) = capital (simulate cfg cs (screenAll params cs))"
  "maxDrawdown (run cfg params cs) = run_maxDrawdown (simulate cfg cs (screenAll params cs))"
  "totalPnL (run cfg params cs)
     = reduce_sum (map pnl (run_trades (simulate cfg cs (screenAll params cs))))"
  by (simp_all add: run_def run_on_def calculateMetrics_def Let_def)

section \<open>Capital and trade list\<close>

lemma run_step_capital:
  assumes "capital st = c0 + sum_list (map pnl (run_trades st))"
  shows "capital (run_step cfg cs srs st i)
           = c0 + sum_list (map pnl (run_trades (run_step cfg cs srs st i)))"
  using assms by (auto simp: run_step_def Let_def split: option.splits)

lemma run_loop_capital:
  "capital (run_loop cfg cs srs n)
     = initialCapital cfg + sum_list (map pnl (run_trades (run_loop cfg cs srs n)))"
proof (induction n)
  case 0
  show ?case by (simp add: run_loop_0 run_init_def)
next
  case (Suc n)
  then show ?case unfolding run_loop_Suc by (rule run_step_capital)
qed

lemma forcedClose_capital:
  assumes "capital st = c0 + sum_list (map pnl (run_trades st))"
  shows "capital (forcedClose cfg cs st)
           = c0 + sum_list (map pnl (run_trades (forcedClose cfg cs st)))"
  using assms by (auto simp: forcedClose_def Let_def split: option.splits)

lemma simulate_capital:
  "capital (simulate cfg cs srs)
     = initialCapital cfg + sum_list (map pnl (run_trades (simulate cfg cs srs)))"
  unfolding simulate_def by (rule forcedClose_capital) (rule run_loop_capital)

text \<open>
  Claim C5 (reconciliation law). For every candle sequence and configuration, the
  \<open>finalCapital\<close> of the result of \<open>run\<close> is the initial capital plus the sum of \<open>pnl\<close>
  over the trades of the result, and it is the result's \<open>totalPnL\<close> plus the initial
  capital. Both equations are between real numbers, that is in exact arithmetic.
\<close>

theorem reconciliation_law:
  "finalCapital (run cfg params candles)
     = initialCapital cfg + sum_list (map pnl (trades (run cfg params candles)))
   \<and> finalCapital (run cfg params candles)
     = totalPnL (run cfg params candles) + initialCapital cfg"
  by (simp add: result_fields reduce_sum_eq simulate_capital)

section \<open>Order of the trades\<close>

lemma closeTrade_fields:
  "entryIndex (closeTrade cfg cs cap p k c) = pos_entryIndex p"
  "exitIndex (closeTrade cfg cs cap p k c) = k"
  "entryPrice (closeTrade cfg cs cap p k c) = pos_entryPrice p"
  "type (closeTrade cfg cs cap p k c) = pos_type p"
  by (simp_all add: closeTrade_def Let_def)

lemma run_step_chronological:
  assumes "chronological i st"
  shows "chronological (Suc i) (run_step cfg cs srs st i)"
proof (cases "srs ! i")
  case None
  with assms show ?thesis
    by (auto simp: run_step_def chronological_def less_Suc_eq split: option.splits)
next
  case (Some sr)
  show ?thesis
  proof (cases "position st")
    case None
    with Some assms show ?thesis
      by (auto simp: run_step_def chronological_def Let_def less_Suc_eq)
  next
    case (Some p)
    with \<open>srs ! i = Some sr\<close> assms show ?thesis
      by (auto simp: run_step_def chronological_def Let_def less_Suc_eq sorted_wrt_append
          closeTrade_fields)
  qed
qed

lemma run_loop_chronological: "chronological n (run_loop cfg cs srs n)"
proof (induction n)
  case 0
  show ?case by (simp add: run_loop_0 run_init_def chronological_def)
next
  case (Suc n)
  then show ?case unfolding run_loop_Suc by (rule run_step_chronological)
qed

lemma simulate_sorted:
  "sorted_wrt (\<lambda>a b. exitIndex a < entryIndex b) (run_trades (simulate cfg cs srs))"
  using run_loop_chronological [of "length cs" cfg cs srs]
  by (auto simp: simulate_def forcedClose_def chronological_def Let_def sorted_wrt_append
      closeTrade_fields split: option.splits)

lemma simulate_trade_bounds:
  assumes "t \<in> set (run_trades (simulate cfg cs srs))"
  shows "entryIndex t \<le> exitIndex t \<and> exitIndex t < length cs"
  using assms run_loop_chronological [of "length cs" cfg cs srs]
  by (auto simp: simulate_def forcedClose_def chronological_def Let_def closeTrade_fields
      split: option.splits if_splits)

text \<open>
  Claim C10. The trades of the result are chronological and do not overlap: of two
  consecutive trades in the list returned by \<open>run\<close>, the later one is entered on a candle
  strictly after the exit candle of the earlier one.
\<close>

theorem trades_chronological:
  assumes "Suc k < length (trades (run cfg params candles))"
  shows "exitIndex (trades (run cfg params candles) ! k)
           < entryIndex (trades (run cfg params candles) ! Suc k)"
  using assms simulate_sorted [of cfg candles "screenAll params candles"]
  by (simp add: result_fields sorted_wrt_iff_nth_less)

theorem trades_chronological_witness:
  "Suc 0 < length (trades (run both_config period1_params candles_rising6))
   \<and> exitIndex (trades (run both_config period1_params candles_rising6) ! 0)
       < entryIndex (trades (run both_config period1_params candles_rising6) ! Suc 0)"
proof -
  have h: "Suc 0 < length (trades (run both_config period1_params candles_rising6))"
    unfolding result_fields by code_simp
  show ?thesis using h trades_chronological [OF h] by simp
qed

section \<open>Side and fill price of an entry\<close>

lemma run_step_entries_ok:
  assumes "entries_ok cfg cs st"
  shows "entries_ok cfg cs (run_step cfg cs srs st i)"
proof (cases "srs ! i")
  case None
  with assms show ?thesis by (simp add: run_step_def)
next
  case (Some sr)
  show ?thesis
  proof (cases "position st")
    case None
    with Some assms show ?thesis
      by (cases "tradingMode cfg") (auto simp: run_step_def entries_ok_def entry_rule_def Let_def)
  next
    case (Some p)
    with \<open>srs ! i = Some sr\<close> assms show ?thesis
      by (auto simp: run_step_def entries_ok_def Let_def closeTrade_fields)
  qed
qed

lemma run_loop_entries_ok: "entries_ok cfg cs (run_loop cfg cs srs n)"
proof (induction n)
  case 0
  show ?case by (simp add: run_loop_0 run_init_def entries_ok_def)
next
  case (Suc n)
  then show ?case unfolding run_loop_Suc by (rule run_step_entries_ok)
qed

lemma simulate_entry_rule:
  assumes "t \<in> set (run_trades (simulate cfg cs srs))"
  shows "entry_rule cfg cs (type t) (entryIndex t) (entryPrice t)"
  using assms run_loop_entries_ok [of cfg cs srs "length cs"]
  by (auto simp: simulate_def forcedClose_def entries_ok_def Let_def closeTrade_fields
      split: option.splits if_splits)

text \<open>
  Claim C8. Under trading mode \<open>long\<close> or \<open>both\<close> every trade of the result is a long,
  entered at the close of its entry candle times \<open>1 + slippage\<close>; a short, entered at
  the close times \<open>1 - slippage\<close>, occurs under trading mode \<open>short\<close> only. In
  particular no trade is a short under mode \<open>both\<close>.
\<close>

theorem entry_side_by_mode:
  "\<forall>t\<in>set (trades (run cfg params candles)).
     (if tradingMode cfg = ModeShort
      then type t = Short \<and> entryPrice t = close (candles ! entryIndex t) * (1 - slippage cfg)
      else type t = Long \<and> entryPrice t = close (candles ! entryIndex t) * (1 + slippage cfg))"
  using simulate_entry_rule [of _ cfg candles "screenAll params candles"]
  by (simp add: result_fields entry_rule_def)

theorem entry_side_by_mode_witness:
  "trades (run both_config period1_params candles_rising6) \<noteq> []
   \<and> type (hd (trades (run both_config period1_params candles_rising6))) = Long
   \<and> entryPrice (hd (trades (run both_config period1_params candles_rising6)))
       = close (candles_rising6 ! entryIndex (hd (trades (run both_config period1_params candles_rising6))))
           * (1 + slippage both_config)
   \<and> trades (run short_config period1_params candles_winning) \<noteq> []
   \<and> type (hd (trades (run short_config period1_params candles_winning))) = Short
   \<and> entryPrice (hd (trades (run short_config period1_params candles_winning)))
       = close (candles_winning ! entryIndex (hd (trades (run short_config period1_params candles_winning))))
           * (1 - slippage short_config)"
proof -
  have ne: "trades (run both_config period1_params candles_rising6) \<noteq> []"
    unfolding result_fields by code_simp
  then have mem: "hd (trades (run both_config period1_params candles_rising6))
                    \<in> set (trades (run both_config period1_params candles_rising6))"
    by simp
  have m: "tradingMode both_config \<noteq> ModeShort"
    by (simp add: both_config_def capped_config_def default_config_def)
  have ne': "trades (run short_config period1_params candles_winning) \<noteq> []"
    unfolding result_fields by code_simp
  then have mem': "hd (trades (run short_config period1_params candles_winning))
                     \<in> set (trades (run short_config period1_params candles_winning))"
    by simp
  have m': "tradingMode short_config = ModeShort"
    by (simp add: short_config_def default_config_def)
  show ?thesis
    using ne m mem entry_side_by_mode [of both_config period1_params candles_rising6]
      ne' m' mem' entry_side_by_mode [of short_config period1_params candles_winning]
    by auto
qed

section \<open>The forced close\<close>

text \<open>
  Claim C1. The claim asks that \<open>peakCapital\<close> and \<open>maxDrawdown\<close> are updated after every
  trade close, the forced close included. The block after the loop changes \<open>capital\<close>
  and appends the trade but leaves both untouched: on \<open>candles_losing\<close> the only trade
  is entered at candle 2 and closed by the forced close at candle 3 with a loss, the
  capital ends below its peak of 10000, and the reported \<open>maxDrawdown\<close> is still 0.
\<close>

theorem forced_close_leaves_drawdown:
  "map (\<lambda>t. (entryIndex t, exitIndex t)) (trades (run default_config period1_params candles_losing))
     = [(2, 3)]
   \<and> finalCapital (run default_config period1_params candles_losing) = 73014826 / 7337
   \<and> peakCapital (simulate default_config candles_losing (screenAll period1_params candles_losing))
       = 10000
   \<and> maxDrawdown (run default_config period1_params candles_losing) = 0"
  unfolding result_fields by code_simp

text \<open>
  Claim C2. The claim asks for \<open>exitIndex > entryIndex\<close> in every trade. A position
  opened on the final candle is closed by the forced close on that same candle: on the
  three candles of \<open>candles_rising3\<close> the only trade has entry index 2 and exit index 2.
\<close>

theorem entry_on_last_candle:
  "length candles_rising3 = 3
   \<and> map (\<lambda>t. (entryIndex t, exitIndex t)) (trades (run default_config period1_params candles_rising3))
       = [(2, 2)]"
  unfolding result_fields by code_simp

text \<open>
  Claim C3. The claim asks that no trade lasts longer than \<open>maxHoldingPeriod\<close>. The loop
  skips a candle without a screening signal before it reaches the exit test: with
  \<open>maxHoldingPeriod = 1\<close> on \<open>candles_with_gap\<close> the position entered at candle 2 is not
  closed at candle 3, which has no signal, but at candle 4, after two bars.
\<close>

theorem holding_period_exceeded:
  "maxHoldingPeriod capped_config = Some 1
   \<and> screenAll period1_params candles_with_gap ! 3 = None
   \<and> map (\<lambda>t. (entryIndex t, exitIndex t)) (trades (run capped_config period1_params candles_with_gap))
       = [(2, 4)]"
  unfolding result_fields by code_simp

section \<open>Metrics\<close>

lemma grossProfit_nonneg: "0 \<le> grossProfit ts"
  unfolding grossProfit_def wins_def reduce_sum_eq by (rule sum_list_nonneg) auto

lemma grossLoss_nonneg: "0 \<le> grossLoss ts"
  by (simp add: grossLoss_def)

text \<open>
  Claim C7. With \<open>grossProfit\<close> the sum of the positive and \<open>grossLoss\<close> the absolute value
  of the sum of the negative \<open>pnl\<close> of the trades (both are never negative), the
  \<open>profitFactor\<close> of the result is \<open>grossProfit / grossLoss\<close> when \<open>grossLoss > 0\<close>, is
  \<open>Infinity\<close> when \<open>grossLoss = 0\<close> and \<open>grossProfit > 0\<close>, and is 0 when both are 0.
\<close>

theorem profitFactor_conventions:
  "0 \<le> grossProfit (trades (run cfg params candles))
   \<and> 0 \<le> grossLoss (trades (run cfg params candles))
   \<and> (grossLoss (trades (run cfg params candles)) > 0 \<longrightarrow>
        profitFactor (run cfg params candles)
          = Finite (grossProfit (trades (run cfg params candles))
                      / grossLoss (trades (run cfg params candles))))
   \<and> (grossLoss (trades (run cfg params candles)) = 0
        \<and> grossProfit (trades (run cfg params candles)) > 0 \<longrightarrow>
        profitFactor (run cfg params candles) = Infinity)
   \<and> (grossProfit (trades (run cfg params candles)) = 0
        \<and> grossLoss (trades (run cfg params candles)) = 0 \<longrightarrow>
        profitFactor (run cfg params candles) = Finite 0)"
  by (simp add: grossProfit_nonneg grossLoss_nonneg run_def run_on_def calculateMetrics_def Let_def)

theorem profitFactor_conventions_witness:
  "(grossLoss (trades (run default_config period1_params candles_losing)) > 0
    \<and> profitFactor (run default_config period1_params candles_losing) = Finite 0)
   \<and> (grossLoss (trades (run default_config period1_params candles_winning)) = 0
      \<and> grossProfit (trades (run default_config period1_params candles_winning)) > 0
      \<and> profitFactor (run default_config period1_params candles_winning) = Infinity)
   \<and> (grossProfit (trades (run default_config period1_params [])) = 0
      \<and> grossLoss (trades (run default_config period1_params [])) = 0
      \<and> profitFactor (run default_config period1_params []) = Finite 0)"
proof -
  have a: "grossLoss (trades (run default_config period1_params candles_losing)) > 0"
    and a': "grossProfit (trades (run default_config period1_params candles_losing)) = 0"
    unfolding result_fields by code_simp+
  have b: "grossLoss (trades (run default_config period1_params candles_winning)) = 0"
    and b': "grossProfit (trades (run default_config period1_params candles_winning)) > 0"
    unfolding result_fields by code_simp+
  have c: "grossProfit (trades (run default_config period1_params [])) = 0"
    and c': "grossLoss (trades (run default_config period1_params [])) = 0"
    unfolding result_fields by code_simp+
  show ?thesis
    using a a' b b' c c'
      profitFactor_conventions [of default_config period1_params candles_losing]
      profitFactor_conventions [of default_config period1_params candles_winning]
      profitFactor_conventions [of default_config period1_params "[]"]
    by simp
qed

lemma count_fields:
  "totalTrades (run cfg params cs) = length (run_trades (simulate cfg cs (screenAll params cs)))"
  "winningTrades (run cfg params cs)
     = length (filter (\<lambda>t. pnl t > 0) (run_trades (simulate cfg cs (screenAll params cs))))"
  by (simp_all add: run_def run_on_def calculateMetrics_def Let_def)

lemma winRate_run:
  "winRate (run cfg params cs)
     = (if totalTrades (run cfg params cs) > 0
        then real (winningTrades (run cfg params cs)) / real (totalTrades (run cfg params cs)) * 100
        else 0)"
  by (simp add: run_def run_on_def calculateMetrics_def Let_def)

text \<open>
  Claim C9, as stated, fails: \<open>calculateMetrics\<close> stores \<open>winRate * 100\<close>, a percentage.
  On \<open>candles_winning\<close> there is one trade, it wins, and the \<open>winRate\<close> field is 100, not
  \<open>winningTrades / totalTrades = 1\<close>.
\<close>

theorem winRate_counterexample:
  "totalTrades (run default_config period1_params candles_winning) = 1
   \<and> winningTrades (run default_config period1_params candles_winning) = 1
   \<and> winRate (run default_config period1_params candles_winning) = 100
   \<and> winRate (run default_config period1_params candles_winning)
       \<noteq> real (winningTrades (run default_config period1_params candles_winning))
           / real (totalTrades (run default_config period1_params candles_winning))"
proof -
  have t: "totalTrades (run default_config period1_params candles_winning) = 1"
    and w: "winningTrades (run default_config period1_params candles_winning) = 1"
    unfolding count_fields by code_simp+
  show ?thesis unfolding winRate_run t w by simp
qed

text \<open>
  Claim C9, amended. The \<open>winRate\<close> field of the result is the percentage
  \<open>100 * winningTrades / totalTrades\<close> when there is at least one trade and 0 when there
  is none, where \<open>totalTrades\<close> is the number of trades of the result and \<open>winningTrades\<close>
  the number of those with positive \<open>pnl\<close>.
\<close>

theorem winRate_is_percentage:
  "totalTrades (run cfg params candles) = length (trades (run cfg params candles))
   \<and> winningTrades (run cfg params candles)
       = length (filter (\<lambda>t. pnl t > 0) (trades (run cfg params candles)))
   \<and> winRate (run cfg params candles)
       = (if totalTrades (run cfg params candles) > 0
          then real (winningTrades (run cfg params candles))
                 / real (totalTrades (run cfg params candles)) * 100
          else 0)"
  using winRate_run [of cfg params candles] by (simp add: count_fields result_fields)

section \<open>The indicator: which indices carry a sample\<close>

lemma series_loop_Suc: "series_loop cs (Suc k) = series_step cs (series_loop cs k) k"
  by (simp add: series_loop_def)

lemma series_step_sel:
  "trueRanges (series_step cs s i) = trueRanges s @ [last (trueRanges (series_step cs s i))]"
  "plusDM (series_step cs s i) = plusDM s @ [last (plusDM (series_step cs s i))]"
  "minusDM (series_step cs s i) = minusDM s @ [last (minusDM (series_step cs s i))]"
  "results (series_step cs s i) = results s @ [None]"
  by (simp_all add: series_step_def Let_def)

lemma series_loop_lengths:
  "length (trueRanges (series_loop cs k)) = k"
  "length (plusDM (series_loop cs k)) = k"
  "length (minusDM (series_loop cs k)) = k"
  "results (series_loop cs k) = replicate k None"
proof (induction k)
  case 0
  {
    case 1 show ?case by (simp add: series_loop_def)
  next
    case 2 show ?case by (simp add: series_loop_def)
  next
    case 3 show ?case by (simp add: series_loop_def)
  next
    case 4 show ?case by (simp add: series_loop_def)
  }
next
  case (Suc k)
  {
    case 1 show ?case using Suc(1) by (subst series_loop_Suc, subst series_step_sel) simp
  next
    case 2 show ?case using Suc(2) by (subst series_loop_Suc, subst series_step_sel) simp
  next
    case 3 show ?case using Suc(3) by (subst series_loop_Suc, subst series_step_sel) simp
  next
    case 4 show ?case using Suc(4)
      by (simp add: series_loop_Suc series_step_sel replicate_append_same)
  }
qed

lemma series_loop_take:
  assumes "k \<le> n"
  shows "take k (trueRanges (series_loop cs n)) = trueRanges (series_loop cs k)
       \<and> take k (plusDM (series_loop cs n)) = plusDM (series_loop cs k)
       \<and> take k (minusDM (series_loop cs n)) = minusDM (series_loop cs k)"
  using assms
proof (induction n)
  case 0
  then show ?case by (simp add: series_loop_def)
next
  case (Suc n)
  show ?case
  proof (cases "k = Suc n")
    case True
    then show ?thesis by (simp add: series_loop_lengths)
  next
    case False
    with Suc.prems have "k \<le> n" by simp
    with Suc.IH show ?thesis
      apply (simp only: series_loop_Suc)
      apply (subst series_step_sel(1), subst series_step_sel(2), subst series_step_sel(3))
      apply (simp add: series_loop_lengths)
      done
  qed
qed

lemma calculateTrueRange_take:
  "i < m \<Longrightarrow> calculateTrueRange (take m cs) i = calculateTrueRange cs i"
  by (simp add: calculateTrueRange_def Let_def)

lemma series_step_take:
  "i < m \<Longrightarrow> series_step (take m cs) s i = series_step cs s i"
  by (simp add: series_step_def calculateTrueRange_take Let_def)

lemma series_loop_prefix: "k \<le> m \<Longrightarrow> series_loop (take m cs) k = series_loop cs k"
  by (induction k) (simp_all add: series_loop_Suc series_step_take, simp add: series_loop_def)

lemma series_prefix:
  assumes "m \<le> length cs"
  shows "trueRanges (series (take m cs)) = take m (trueRanges (series cs))"
    and "plusDM (series (take m cs)) = take m (plusDM (series cs))"
    and "minusDM (series (take m cs)) = take m (minusDM (series cs))"
    and "results (series (take m cs)) = replicate m None"
    and "results (series cs) = replicate (length cs) None"
  using assms series_loop_take [of m "length cs" cs]
  by (simp_all add: series_def series_loop_prefix series_loop_lengths min_def)


lemma slice_take: "b \<le> m \<Longrightarrow> slice (take m xs) a b = slice xs a b"
  by (simp add: slice_def drop_take min_def)

lemma adx_loop_Suc:
  "adx_loop p s (Suc n) = (if p \<le> n then adx_step p s (adx_loop p s n) n else adx_loop p s n)"
  by (simp add: adx_loop_def)

lemma adx_loop_start: "n \<le> p \<Longrightarrow> adx_loop p s n
    = \<lparr>smoothed = None, smoothedDX = None, dxValues = [], adxResults = results s\<rparr>"
  by (simp add: adx_loop_def)

lemma adx_step_length: "length (adxResults (adx_step p s st i)) = length (adxResults st)"
  by (simp add: adx_step_def Let_def split: prod.splits)

lemma adx_step_other: "j \<noteq> i \<Longrightarrow> adxResults (adx_step p s st i) ! j = adxResults st ! j"
  by (simp add: adx_step_def Let_def split: prod.splits)

lemma adx_step_here:
  "i < length (adxResults st) \<Longrightarrow> adxResults (adx_step p s st i) ! i \<noteq> None"
  by (simp add: adx_step_def Let_def split: prod.splits)

lemma adx_loop_length: "length (adxResults (adx_loop p s n)) = length (results s)"
  by (induction n) (simp_all add: adx_loop_Suc adx_step_length, simp add: adx_loop_def)

lemma adx_loop_later:
  assumes "j < m" "m \<le> n"
  shows "adxResults (adx_loop p s n) ! j = adxResults (adx_loop p s m) ! j"
  using assms(2)
proof (induction n)
  case 0
  then show ?case by simp
next
  case (Suc n)
  show ?case
  proof (cases "m = Suc n")
    case True
    then show ?thesis by simp
  next
    case False
    with Suc.prems have le: "m \<le> n" by simp
    with assms(1) have "j \<noteq> n" by simp
    with Suc.IH [OF le] show ?thesis by (simp add: adx_loop_Suc adx_step_other)
  qed
qed

lemma adx_loop_below_period:
  assumes "j < p"
  shows "adxResults (adx_loop p s n) ! j = results s ! j"
proof (cases "p \<le> n")
  case True
  with assms adx_loop_later [of j p n p s] show ?thesis by (simp add: adx_loop_start)
next
  case False
  then show ?thesis by (simp add: adx_loop_start)
qed

lemma adx_loop_defined:
  assumes "p \<le> j" "j < n" "j < length (results s)"
  shows "adxResults (adx_loop p s n) ! j \<noteq> None"
proof -
  have "adxResults (adx_loop p s n) ! j = adxResults (adx_loop p s (Suc j)) ! j"
    using assms(2) by (intro adx_loop_later) simp_all
  also have "\<dots> \<noteq> None"
    using assms(1,3) by (simp add: adx_loop_Suc adx_step_here adx_loop_length)
  finally show ?thesis .
qed

lemma adx_step_prefix:
  assumes "i < m"
    and "trueRanges s' = take m (trueRanges s)"
    and "plusDM s' = take m (plusDM s)"
    and "minusDM s' = take m (minusDM s)"
    and "smoothed st' = smoothed st"
    and "smoothedDX st' = smoothedDX st"
    and "dxValues st' = dxValues st"
    and "adxResults st' = take m (adxResults st)"
  shows "smoothed (adx_step p s' st' i) = smoothed (adx_step p s st i)
       \<and> smoothedDX (adx_step p s' st' i) = smoothedDX (adx_step p s st i)
       \<and> dxValues (adx_step p s' st' i) = dxValues (adx_step p s st i)
       \<and> adxResults (adx_step p s' st' i) = take m (adxResults (adx_step p s st i))"
proof -
  have sl: "slice (trueRanges s') (i - p + 1) (i + 1) = slice (trueRanges s) (i - p + 1) (i + 1)"
    "slice (plusDM s') (i - p + 1) (i + 1) = slice (plusDM s) (i - p + 1) (i + 1)"
    "slice (minusDM s') (i - p + 1) (i + 1) = slice (minusDM s) (i - p + 1) (i + 1)"
    using assms(1-4) by (simp_all add: slice_take)
  have nt: "trueRanges s' ! i = trueRanges s ! i" "plusDM s' ! i = plusDM s ! i"
    "minusDM s' ! i = minusDM s ! i"
    using assms(1-4) by simp_all
  show ?thesis
    unfolding adx_step_def sl nt assms(5-8) by (simp add: Let_def take_update_swap split: prod.splits)
qed

lemma adx_loop_prefix:
  assumes "n \<le> m"
    and "trueRanges s' = take m (trueRanges s)"
    and "plusDM s' = take m (plusDM s)"
    and "minusDM s' = take m (minusDM s)"
    and "results s' = take m (results s)"
  shows "smoothed (adx_loop p s' n) = smoothed (adx_loop p s n)
       \<and> smoothedDX (adx_loop p s' n) = smoothedDX (adx_loop p s n)
       \<and> dxValues (adx_loop p s' n) = dxValues (adx_loop p s n)
       \<and> adxResults (adx_loop p s' n) = take m (adxResults (adx_loop p s n))"
  using assms(1)
proof (induction n)
  case 0
  show ?case using assms(5) by (simp add: adx_loop_def)
next
  case (Suc n)
  then have lt: "n < m" and IH: "smoothed (adx_loop p s' n) = smoothed (adx_loop p s n)
       \<and> smoothedDX (adx_loop p s' n) = smoothedDX (adx_loop p s n)
       \<and> dxValues (adx_loop p s' n) = dxValues (adx_loop p s n)
       \<and> adxResults (adx_loop p s' n) = take m (adxResults (adx_loop p s n))"
    by simp_all
  show ?case
  proof (cases "p \<le> n")
    case True
    then show ?thesis
      unfolding adx_loop_Suc using adx_step_prefix [OF lt assms(2-4), of "adx_loop p s' n" "adx_loop p s n" p] IH
      by simp
  next
    case False
    then show ?thesis using IH by (simp add: adx_loop_Suc)
  qed
qed


lemma screen_in_range: "i < length cs \<Longrightarrow> screen params cs i \<noteq> Inl e"
  by (simp add: screen_def Let_def split: option.splits)

lemma calculateADX_length: "length (calculateADX cs p) = length cs"
  by (simp add: calculateADX_def adx_loop_length series_def series_loop_lengths)

lemma calculateADX_defined_iff:
  assumes "i < length cs"
  shows "calculateADX cs p ! i \<noteq> None \<longleftrightarrow> p \<le> i \<and> p * 2 \<le> length cs"
proof (cases "length cs < p * 2")
  case True
  with assms show ?thesis by (simp add: calculateADX_def)
next
  case False
  have res: "results (series cs) = replicate (length cs) None"
    by (simp add: series_def series_loop_lengths)
  show ?thesis
  proof (cases "p \<le> i")
    case True
    with assms res have "adxResults (adx_loop p (series cs) (length cs)) ! i \<noteq> None"
      by (intro adx_loop_defined) simp_all
    with True False show ?thesis by (simp add: calculateADX_def)
  next
    case nle: False
    then have "adxResults (adx_loop p (series cs) (length cs)) ! i = results (series cs) ! i"
      by (intro adx_loop_below_period) simp
    with assms res nle False show ?thesis by (simp add: calculateADX_def)
  qed
qed

text \<open>
  Until \<open>period\<close> DX values exist, that is below index \<open>2 * period - 1\<close>, the sample is
  there and its \<open>adx\<close> field is 0.
\<close>

lemma adx_step_dx_length: "length (dxValues (adx_step p s st i)) = Suc (length (dxValues st))"
  by (simp add: adx_step_def Let_def split: prod.splits)

lemma adx_loop_dx_length: "length (dxValues (adx_loop p s n)) = n - p"
proof (induction n)
  case 0
  show ?case by (simp add: adx_loop_def)
next
  case (Suc n)
  then show ?case by (auto simp: adx_loop_Suc adx_step_dx_length)
qed

lemma adx_step_warmup:
  assumes "i < length (adxResults st)" and "Suc (length (dxValues st)) < p"
  shows "map_option adx (adxResults (adx_step p s st i) ! i) = Some 0"
  using assms by (simp add: adx_step_def Let_def split: prod.splits)

lemma calculateADX_warmup:
  assumes "p \<le> i" and "i + 1 < 2 * p" and "i < length cs" and "2 * p \<le> length cs"
  shows "map_option adx (calculateADX cs p ! i) = Some 0"
proof -
  let ?s = "series cs"
  have len: "length (results ?s) = length cs"
    by (simp add: series_def series_loop_lengths)
  have "calculateADX cs p ! i = adxResults (adx_loop p ?s (length cs)) ! i"
    using assms(4) by (simp add: calculateADX_def)
  also have "\<dots> = adxResults (adx_loop p ?s (Suc i)) ! i"
    using assms(3) by (intro adx_loop_later) simp_all
  also have "\<dots> = adxResults (adx_step p ?s (adx_loop p ?s i) i) ! i"
    using assms(1) by (simp add: adx_loop_Suc)
  finally have eq: "calculateADX cs p ! i = adxResults (adx_step p ?s (adx_loop p ?s i) i) ! i" .
  show ?thesis
    unfolding eq using assms(1-3) len
    by (intro adx_step_warmup) (simp_all add: adx_loop_length adx_loop_dx_length)
qed

text \<open>
  Claim C4, as stated, fails: with period 2 on six candles the indices 2 and 3, both
  below \<open>2 * period = 4\<close>, carry a sample, and the one at index 3 has a non-zero \<open>adx\<close>.
\<close>

theorem sample_before_twice_period:
  "(2::nat) < 2 * 2 \<and> (3::nat) < 2 * 2
   \<and> calculateADX candles_rising6 2 ! 2 = Some \<lparr>adx = 0, plusDI = 50, minusDI = 0\<rparr>
   \<and> calculateADX candles_rising6 2 ! 3 = Some \<lparr>adx = 100, plusDI = 50, minusDI = 0\<rparr>"
  by code_simp

text \<open>
  Claim C4, amended. \<open>calculateADX\<close> produces a sample at an index only if that index is
  at least \<open>period\<close> and the sequence has at least \<open>2 * period\<close> candles: \<open>results[i]\<close> is
  undefined for every \<open>i < period\<close>, and for every \<open>i\<close> of a shorter sequence.
\<close>

theorem sample_needs_period:
  assumes "i < length candles" and "calculateADX candles period ! i \<noteq> None"
  shows "period \<le> i \<and> 2 * period \<le> length candles"
  using assms calculateADX_defined_iff [of i candles period] by (simp add: mult.commute)

theorem sample_needs_period_witness:
  "(2::nat) < length candles_rising6
   \<and> calculateADX candles_rising6 2 ! 2 \<noteq> None
   \<and> (2::nat) \<le> 2 \<and> 2 * 2 \<le> length candles_rising6"
proof -
  have h1: "(2::nat) < length candles_rising6"
    by (simp add: candles_rising6_def candles_rising3_def)
  have h2: "calculateADX candles_rising6 2 ! 2 \<noteq> None"
    by code_simp
  show ?thesis using h1 h2 sample_needs_period [OF h1 h2] by simp
qed

section \<open>Recomputation over a prefix\<close>

lemma prefix_last:
  assumes "i < length cs" and "p * 2 \<le> i + 1"
  shows "calculateADX (take (i + 1) cs) p \<noteq> []"
    and "last (calculateADX (take (i + 1) cs) p) = calculateADX cs p ! i"
proof -
  let ?m = "i + 1"
  let ?s = "series cs" and ?s' = "series (take ?m cs)"
  from assms have m: "?m \<le> length cs" by simp
  have len: "length (calculateADX (take ?m cs) p) = ?m"
    using m by (simp add: calculateADX_length)
  then show ne: "calculateADX (take ?m cs) p \<noteq> []" by auto
  have "results ?s' = take ?m (results ?s)"
    using m by (simp add: series_prefix)
  with series_prefix(1-3) [OF m]
  have pre: "adxResults (adx_loop p ?s' ?m) = take ?m (adxResults (adx_loop p ?s ?m))"
    using adx_loop_prefix [of ?m ?m ?s' ?s p] by simp
  have "last (calculateADX (take ?m cs) p) = calculateADX (take ?m cs) p ! i"
    using ne len by (simp add: last_conv_nth)
  also have "\<dots> = adxResults (adx_loop p ?s' ?m) ! i"
    using assms m by (simp add: calculateADX_def)
  also have "\<dots> = adxResults (adx_loop p ?s ?m) ! i"
    by (subst pre) simp
  also have "\<dots> = adxResults (adx_loop p ?s (length cs)) ! i"
    using m by (intro adx_loop_later [symmetric]) simp_all
  also have "\<dots> = calculateADX cs p ! i"
    using assms m by (simp add: calculateADX_def)
  finally show "last (calculateADX (take ?m cs) p) = calculateADX cs p ! i" .
qed

lemma screen_full_series:
  assumes "i < length cs" and "pADXPeriodo params * 2 \<le> i"
  shows "screen params cs i =
           Inr (case calculateADX cs (pADXPeriodo params) ! i of
                  None \<Rightarrow> None
                | Some r \<Rightarrow>
                    if adx r = 0 then None
                    else Some \<lparr>screening = (adx r \<le> pADXMaxLateral params), adxValue = adx r,
                               isLateral = (adx r \<le> pADXMaxLateral params),
                               signalTime = timestamp (cs ! i)\<rparr>)"
proof -
  let ?rs = "calculateADX (slice cs 0 (i + 1)) (pADXPeriodo params)"
  from assms(2) have le: "pADXPeriodo params * 2 \<le> i + 1" by simp
  note pl = prefix_last [OF assms(1) le]
  have sl: "slice cs 0 (i + 1) = take (i + 1) cs" by (simp add: slice_def)
  have ne: "?rs \<noteq> []" unfolding sl by (rule pl(1))
  have "?rs ! (length ?rs - 1) = last ?rs"
    using ne by (simp add: last_conv_nth)
  also have "\<dots> = calculateADX cs (pADXPeriodo params) ! i"
    unfolding sl by (rule pl(2))
  finally have nth: "?rs ! (length ?rs - 1) = calculateADX cs (pADXPeriodo params) ! i" .
  have "\<not> i < pADXPeriodo params * 2" using assms(2) by simp
  then show ?thesis
    unfolding screen_def Let_def nth using ne assms(1) by (simp split: option.splits)
qed

text \<open>
  Claim C6, as stated, fails for \<open>screen\<close>. With period 1, index 1 of \<open>candles_rising3\<close>
  satisfies \<open>i + 1 \<ge> 2 * p\<close>; the full scan has \<open>adx = 100\<close> there and \<open>getADXValue\<close>
  returns 100, but \<open>screen\<close> returns no signal, because it first tests \<open>index < 2 * p\<close>.
  At index 3 of \<open>candles_with_gap\<close> the full scan has \<open>adx = 0\<close>, and \<open>screen\<close> returns no
  signal either, because it treats an \<open>adx\<close> of exactly 0 as absent.
\<close>

theorem screen_withholds_sample:
  "2 * pADXPeriodo period1_params \<le> (1::nat) + 1
   \<and> map_option adx (calculateADX candles_rising3 (pADXPeriodo period1_params) ! 1) = Some 100
   \<and> getADXValue candles_rising3 1 (pADXPeriodo period1_params) = Some 100
   \<and> screen period1_params candles_rising3 1 = Inr None
   \<and> 2 * pADXPeriodo period1_params \<le> (3::nat) + 1
   \<and> map_option adx (calculateADX candles_with_gap (pADXPeriodo period1_params) ! 3) = Some 0
   \<and> screen period1_params candles_with_gap 3 = Inr None"
  by code_simp

text \<open>
  Claim C6, amended. For a positive period \<open>p\<close> and an index \<open>i\<close> of the sequence with
  \<open>i + 1 \<ge> 2 * p\<close>, the last element of \<open>calculateADX\<close> on the prefix of length \<open>i + 1\<close>
  is element \<open>i\<close> of \<open>calculateADX\<close> on the full sequence, and \<open>getADXValue\<close>, which
  recomputes over the prefix, returns the \<open>adx\<close> of the full scan at that index. \<open>screen\<close>
  with period \<open>p\<close> returns a signal with that same \<open>adx\<close> value only when moreover
  \<open>i \<ge> 2 * p\<close> and the \<open>adx\<close> is not 0; otherwise it returns no signal.
\<close>

theorem prefix_recomputation:
  assumes "0 < pADXPeriodo params" and "i < length candles"
    and "2 * pADXPeriodo params \<le> i + 1"
  shows "last (calculateADX (take (i + 1) candles) (pADXPeriodo params))
           = calculateADX candles (pADXPeriodo params) ! i
       \<and> getADXValue candles i (pADXPeriodo params)
           = map_option adx (calculateADX candles (pADXPeriodo params) ! i)
       \<and> screen params candles i
           = Inr (if i < 2 * pADXPeriodo params then None
                  else case calculateADX candles (pADXPeriodo params) ! i of
                         None \<Rightarrow> None
                       | Some r \<Rightarrow>
                           if adx r = 0 then None
                           else Some \<lparr>screening = (adx r \<le> pADXMaxLateral params),
                                      adxValue = adx r,
                                      isLateral = (adx r \<le> pADXMaxLateral params),
                                      signalTime = timestamp (candles ! i)\<rparr>)"
proof -
  let ?p = "pADXPeriodo params"
  from assms(3) have le: "?p * 2 \<le> i + 1" by (simp add: mult.commute)
  note pl = prefix_last [OF assms(2) le]
  have "slice candles 0 (i + 1) = take (i + 1) candles" by (simp add: slice_def)
  then have g: "getADXValue candles i ?p
                  = map_option adx (last (calculateADX (take (i + 1) candles) ?p))"
    using pl(1) by (simp add: getADXValue_def Let_def last_conv_nth)
  have sc: "screen params candles i
           = Inr (if i < 2 * ?p then None
                  else case calculateADX candles ?p ! i of
                         None \<Rightarrow> None
                       | Some r \<Rightarrow>
                           if adx r = 0 then None
                           else Some \<lparr>screening = (adx r \<le> pADXMaxLateral params),
                                      adxValue = adx r,
                                      isLateral = (adx r \<le> pADXMaxLateral params),
                                      signalTime = timestamp (candles ! i)\<rparr>)"
  proof (cases "i < 2 * ?p")
    case True
    then have "i < ?p * 2" by (simp add: mult.commute)
    then have "screen params candles i = Inr None" by (simp add: screen_def)
    with True show ?thesis by simp
  next
    case False
    then have "?p * 2 \<le> i" by (simp add: mult.commute)
    from screen_full_series [OF assms(2) this] False show ?thesis by simp
  qed
  from pl(2) g sc show ?thesis by simp
qed

theorem prefix_recomputation_witness:
  "0 < pADXPeriodo period2_params \<and> (3::nat) < length candles_with_gap
   \<and> 2 * pADXPeriodo period2_params \<le> (3::nat) + 1
   \<and> last (calculateADX (take (3 + 1) candles_with_gap) (pADXPeriodo period2_params))
       = calculateADX candles_with_gap (pADXPeriodo period2_params) ! 3
   \<and> getADXValue candles_with_gap 3 (pADXPeriodo period2_params) = Some 100
   \<and> screen period2_params candles_with_gap 3 = Inr None
   \<and> 0 < pADXPeriodo period1_params \<and> (2::nat) < length candles_with_gap
   \<and> 2 * pADXPeriodo period1_params \<le> (2::nat) + 1
   \<and> last (calculateADX (take (2 + 1) candles_with_gap) (pADXPeriodo period1_params))
       = calculateADX candles_with_gap (pADXPeriodo period1_params) ! 2
   \<and> getADXValue candles_with_gap 2 (pADXPeriodo period1_params) = Some 100
   \<and> screen period1_params candles_with_gap 2
       = Inr (Some \<lparr>screening = True, adxValue = 100, isLateral = True, signalTime = 2\<rparr>)"
proof -
  have a1: "0 < pADXPeriodo period2_params" by (simp add: period2_params_def)
  have a2: "(3::nat) < length candles_with_gap"
    by (simp add: candles_with_gap_def candles_rising3_def)
  have a3: "2 * pADXPeriodo period2_params \<le> (3::nat) + 1" by (simp add: period2_params_def)
  have av: "getADXValue candles_with_gap 3 (pADXPeriodo period2_params) = Some 100"
    by code_simp
  have as: "screen period2_params candles_with_gap 3 = Inr None" by code_simp
  have b1: "0 < pADXPeriodo period1_params" by (simp add: period1_params_def)
  have b2: "(2::nat) < length candles_with_gap"
    by (simp add: candles_with_gap_def candles_rising3_def)
  have b3: "2 * pADXPeriodo period1_params \<le> (2::nat) + 1" by (simp add: period1_params_def)
  have bv: "getADXValue candles_with_gap 2 (pADXPeriodo period1_params) = Some 100"
    by code_simp
  have bs: "screen period1_params candles_with_gap 2
       = Inr (Some \<lparr>screening = True, adxValue = 100, isLateral = True, signalTime = 2\<rparr>)"
    by code_simp
  from prefix_recomputation [OF a1 a2 a3] prefix_recomputation [OF b1 b2 b3]
  have "last (calculateADX (take (3 + 1) candles_with_gap) (pADXPeriodo period2_params))
          = calculateADX candles_with_gap (pADXPeriodo period2_params) ! 3"
    and "last (calculateADX (take (2 + 1) candles_with_gap) (pADXPeriodo period1_params))
          = calculateADX candles_with_gap (pADXPeriodo period1_params) ! 2"
    by blast+
  with a1 a2 a3 av as b1 b2 b3 bv bs show ?thesis by blast
qed

end
